theory Spec2Isabelle
  imports Complex_Main "HOL-Library.Sublist"
begin

section \<open>Floating-point values of the script\<close>

text \<open>
  The script computes on numpy doubles. Finite doubles are modelled as reals (rounding and
  overflow are not modelled); the three non-finite results that the code can produce are
  kept as values of their own, because HOL's \<open>x / 0 = 0\<close> is not what numpy returns:
  \<open>np.mean([])\<close> and \<open>np.std([x], ddof=1)\<close> are \<open>nan\<close>, and a slope over a zero time
  step is \<open>inf\<close>, \<open>-inf\<close> or \<open>nan\<close>. A column whose cells are all integer literals is
  an \<open>int64\<close> column; the one operation of the script that computes in \<open>int64\<close>,
  \<open>np.diff\<close>, has its wrap-around written out.
\<close>

datatype fl = Fin real | PInf | MInf | NaN

text \<open>\<open>a / b\<close> on finite doubles; the divisors of the script are counts and time steps,
  whose zero is \<open>+0.0\<close>.\<close>

definition fl_div :: "real \<Rightarrow> real \<Rightarrow> fl" where
  "fl_div a b =
     (if b \<noteq> 0 then Fin (a / b)
      else if a > 0 then PInf
      else if a < 0 then MInf
      else NaN)"

fun fl_neg :: "fl \<Rightarrow> fl" where
  "fl_neg (Fin a) = Fin (- a)"
| "fl_neg PInf = MInf"
| "fl_neg MInf = PInf"
| "fl_neg NaN = NaN"

fun fl_add :: "fl \<Rightarrow> fl \<Rightarrow> fl" where
  "fl_add NaN _ = NaN"
| "fl_add _ NaN = NaN"
| "fl_add (Fin a) (Fin b) = Fin (a + b)"
| "fl_add PInf MInf = NaN"
| "fl_add MInf PInf = NaN"
| "fl_add PInf _ = PInf"
| "fl_add _ PInf = PInf"
| "fl_add MInf _ = MInf"
| "fl_add _ MInf = MInf"

definition fl_sub :: "fl \<Rightarrow> fl \<Rightarrow> fl" where
  "fl_sub a b = fl_add a (fl_neg b)"

text \<open>\<open>c * x\<close> for a finite factor \<open>c\<close> (the script only multiplies by the constant 2 and
  by the calibration multipliers).\<close>

fun fl_scale :: "real \<Rightarrow> fl \<Rightarrow> fl" where
  "fl_scale c (Fin a) = Fin (c * a)"
| "fl_scale c NaN = NaN"
| "fl_scale c PInf = (if c > 0 then PInf else if c < 0 then MInf else NaN)"
| "fl_scale c MInf = (if c > 0 then MInf else if c < 0 then PInf else NaN)"

fun fl_sqrt :: "fl \<Rightarrow> fl" where
  "fl_sqrt (Fin a) = (if a < 0 then NaN else Fin (sqrt a))"
| "fl_sqrt PInf = PInf"
| "fl_sqrt MInf = NaN"
| "fl_sqrt NaN = NaN"

text \<open>Comparisons: every comparison with \<open>nan\<close> is false.\<close>

fun fl_less :: "fl \<Rightarrow> fl \<Rightarrow> bool" where
  "fl_less NaN _ = False"
| "fl_less _ NaN = False"
| "fl_less (Fin a) (Fin b) = (a < b)"
| "fl_less _ MInf = False"
| "fl_less PInf _ = False"
| "fl_less MInf _ = True"
| "fl_less _ PInf = True"

fun fl_le :: "fl \<Rightarrow> fl \<Rightarrow> bool" where
  "fl_le NaN _ = False"
| "fl_le _ NaN = False"
| "fl_le (Fin a) (Fin b) = (a \<le> b)"
| "fl_le MInf _ = True"
| "fl_le _ PInf = True"
| "fl_le _ MInf = False"
| "fl_le PInf _ = False"

text \<open>Python's builtin \<open>max(a, b)\<close> keeps \<open>a\<close> unless \<open>b > a\<close>.\<close>

definition py_max :: "fl \<Rightarrow> fl \<Rightarrow> fl" where
  "py_max a b = (if fl_less a b then b else a)"

text \<open>\<open>np.mean(xs)\<close>: the sum over the count, \<open>nan\<close> on an empty sequence.\<close>

definition np_mean :: "real list \<Rightarrow> fl" where
  "np_mean xs = fl_div (sum_list xs) (real (length xs))"

text \<open>\<open>np.std(xs, ddof=1)\<close>: the squared deviations from the mean are summed, divided by
  \<open>max(N - 1, 0)\<close>, and the root is taken. For \<open>N \<le> 1\<close> the sum and the divisor are both
  zero and the result is \<open>nan\<close>.\<close>

definition np_std_ddof1 :: "real list \<Rightarrow> fl" where
  "np_std_ddof1 xs =
     (let n = length xs;
          arrmean = sum_list xs / real n;
          ss = sum_list (map (\<lambda>x. (x - arrmean)\<^sup>2) xs)
      in fl_sqrt (fl_div ss (real (n - 1))))"


section \<open>find_maxes\<close>

text \<open>The \<open>for k in df[channel]\<close> loop of \<open>find_maxes\<close>, with its two loop variables
  \<open>prev\<close> and \<open>maxes\<close> as arguments; \<open>av\<close> is fixed before the loop.\<close>

fun scan_loop :: "fl \<Rightarrow> real \<Rightarrow> real list \<Rightarrow> real list \<Rightarrow> real list" where
  "scan_loop av prev maxes [] = maxes"
| "scan_loop av prev maxes (k # ks) =
     (let i = \<bar>k\<bar> in
      if fl_less (py_max (Fin (4 * i)) av) (Fin prev) then scan_loop av i (maxes @ [prev]) ks
      else if prev < i then scan_loop av i maxes ks
      else scan_loop av prev maxes ks)"

text \<open>The peaks confirmed by the scan, before the warm-up discard.\<close>

definition raw_confirmed :: "real list \<Rightarrow> real list" where
  "raw_confirmed ch = scan_loop (np_mean ch) 0 [] ch"

text \<open>\<open>if maxes: maxes.pop(0)\<close>.\<close>

definition pop_first :: "'a list \<Rightarrow> 'a list" where
  "pop_first maxes = (if maxes \<noteq> [] then tl maxes else maxes)"

text \<open>Lines 83 to 90: the spread, the two bounds and the two list comprehensions.\<close>

definition trim :: "real list \<Rightarrow> real list" where
  "trim maxes =
     (let std = (if length maxes > 1 then np_std_ddof1 maxes else Fin 10);
          Lbound = fl_sub (np_mean maxes) (fl_scale 2 std);
          Ubound = fl_add (np_mean maxes) (fl_scale 2 std);
          maxes1 = filter (\<lambda>m. fl_le Lbound (Fin m)) maxes;
          maxes2 = filter (\<lambda>m. fl_le (Fin m) Ubound) maxes1
      in maxes2)"

definition find_maxes :: "real list \<Rightarrow> real list" where
  "find_maxes ch = trim (pop_first (raw_confirmed ch))"


section \<open>calculate_median_slope\<close>

text \<open>A column of a data frame after \<open>pd.to_numeric\<close>: \<open>int64\<close> when every cell is an
  integer literal, \<open>float64\<close> otherwise. (Integer cells outside the \<open>int64\<close> range, for
  which pandas picks another type, are not modelled.)\<close>

datatype column = Int64 "int list" | Float64 "real list"

text \<open>The cells as numbers: what iterating the column or \<open>np.mean\<close> sees, and what the
  conversion of an \<open>int64\<close> array to \<open>float64\<close> before a true division gives.\<close>

fun to_float :: "column \<Rightarrow> real list" where
  "to_float (Int64 a) = map real_of_int a"
| "to_float (Float64 a) = a"

text \<open>Arithmetic on \<open>int64\<close> arrays wraps modulo \<open>2^64\<close> into \<open>[-2^63, 2^63)\<close>.\<close>

definition wrap64 :: "int \<Rightarrow> int" where
  "wrap64 z = (z + 2 ^ 63) mod 2 ^ 64 - 2 ^ 63"

definition diff_float :: "real list \<Rightarrow> real list" where
  "diff_float a = map2 (\<lambda>x y. y - x) a (tl a)"

definition diff_int64 :: "int list \<Rightarrow> int list" where
  "diff_int64 a = map2 (\<lambda>x y. wrap64 (y - x)) a (tl a)"

text \<open>\<open>np.diff(a)\<close>: \<open>out[i] = a[i+1] - a[i]\<close> in the type of \<open>a\<close>, one element shorter
  than \<open>a\<close>.\<close>

fun np_diff :: "column \<Rightarrow> column" where
  "np_diff (Float64 a) = Float64 (diff_float a)"
| "np_diff (Int64 a) = Int64 (diff_int64 a)"

text \<open>\<open>np.median\<close>: \<open>nan\<close> on an empty array and whenever a \<open>nan\<close> is present; otherwise
  the middle element of the sorted array, or the mean of the two middle elements.\<close>

fun fl_insort :: "fl \<Rightarrow> fl list \<Rightarrow> fl list" where
  "fl_insort x [] = [x]"
| "fl_insort x (y # ys) = (if fl_le x y then x # y # ys else y # fl_insort x ys)"

definition fl_sort :: "fl list \<Rightarrow> fl list" where
  "fl_sort xs = foldr fl_insort xs []"

definition np_median :: "fl list \<Rightarrow> fl" where
  "np_median xs =
     (let n = length xs; part = fl_sort xs in
      if n = 0 then NaN
      else if NaN \<in> set xs then NaN
      else if odd n then part ! (n div 2)
      else fl_scale (1 / 2) (fl_add (part ! (n div 2 - 1)) (part ! (n div 2))))"

text \<open>The two columns of one data frame have the same length, so the element-wise
  division pairs the differences position by position.\<close>

definition calculate_median_slope :: "column \<Rightarrow> column \<Rightarrow> fl" where
  "calculate_median_slope time_ms ch =
     (let slopes = map2 fl_div (to_float (np_diff ch)) (to_float (np_diff time_ms))
      in np_median slopes)"


section \<open>map_pressure_to_file\<close>

text \<open>\<open>str.replace(old, new)\<close>: every non-overlapping occurrence, from the left.\<close>

function replace :: "string \<Rightarrow> string \<Rightarrow> string \<Rightarrow> string" where
  "replace old new [] = (if old = [] then new else [])"
| "replace old new (c # cs) =
     (if old = [] then new @ c # replace old new cs
      else if prefix old (c # cs) then new @ replace old new (drop (length old) (c # cs))
      else c # replace old new cs)"
  by pat_completeness auto
termination
  by (relation "measure (\<lambda>(old, new, s). length s)") auto

definition file_time_str :: "string \<Rightarrow> string" where
  "file_time_str file_name =
     replace ''-'' '' '' (replace ''.csv'' '''' (replace ''Pokit DSO Export '' '''' file_name))"

text \<open>The exceptions that the script does not catch.\<close>

datatype error = ValueError_strptime | ValueError_concat

text \<open>Timestamps are whole seconds on one absolute axis (\<open>int\<close>); a pressure log is the
  list of its rows \<open>(Date/Time, Pressure)\<close> after \<open>read_pressure_csv\<close> has dropped the
  rows without a date.\<close>

type_synonym pressure_log = "(int \<times> real) list"

text \<open>\<open>argsort\<close>: the positions in ascending order of their keys. numpy leaves the order
  of equal keys open; the model takes the stable one.\<close>

definition argsort :: "int list \<Rightarrow> nat list" where
  "argsort ks = sort_key (\<lambda>i. ks ! i) [0..<length ks]"

text \<open>Lines 119 to 123, for a file time that has been parsed.\<close>

definition nearest_pressure :: "pressure_log \<Rightarrow> int \<Rightarrow> real option" where
  "nearest_pressure pressure_data file_time =
     (let closest_time =
            map (\<lambda>i. pressure_data ! i)
              (take 1 (argsort (map (\<lambda>(t, p). \<bar>t - file_time\<bar>) pressure_data)))
      in if closest_time \<noteq> [] then Some (snd (hd closest_time)) else None)"

text \<open>\<open>datetime.strptime\<close> with the format \<open>'%Y %m %d %H %M %S'\<close> is library code; it is
  the parameter \<open>strptime\<close>, \<open>None\<close> where the library raises \<open>ValueError\<close>.\<close>

definition map_pressure_to_file ::
  "(string \<Rightarrow> int option) \<Rightarrow> pressure_log \<Rightarrow> string \<Rightarrow> error + real option" where
  "map_pressure_to_file strptime pressure_data file_name =
     (case strptime (file_time_str file_name) of
        None \<Rightarrow> Inl ValueError_strptime
      | Some file_time \<Rightarrow> Inr (nearest_pressure pressure_data file_time))"


section \<open>process_folder\<close>

text \<open>A data frame returned by \<open>read_dso_csv\<close>: the \<open>Time (ms)\<close> column and the other
  columns in their order, each with its name.\<close>

record dso =
  time_ms :: column
  columns :: "(string \<times> column) list"

record summary_row =
  file_name :: string
  channel :: string
  mean_of_maxes :: fl
  std_of_maxes :: fl
  median_slope :: fl
  pressure :: "real option"

text \<open>What does not change during one call of \<open>process_folder\<close>.\<close>

record folder_args =
  strptime :: "string \<Rightarrow> int option"
  pressure_data :: pressure_log
  max_multiplier :: real
  pressure_multiplier :: real

definition scale_peaks :: "real \<Rightarrow> real list \<Rightarrow> real list" where
  "scale_peaks m maxes = map (\<lambda>x. x * m) maxes"

text \<open>Lines 136 to 152 for one channel: the rows it appends to \<open>results\<close>, or the
  exception that leaves the function.\<close>

definition process_channel ::
  "folder_args \<Rightarrow> string \<Rightarrow> dso \<Rightarrow> string \<Rightarrow> column \<Rightarrow> error + summary_row list" where
  "process_channel a fname df col vals =
     (let maxes = scale_peaks (max_multiplier a) (find_maxes (to_float vals)) in
      if maxes \<noteq> [] then
        (let mean_max = np_mean maxes;
             std_max = np_std_ddof1 maxes;
             slope = calculate_median_slope (time_ms df) vals
         in case map_pressure_to_file (strptime a) (pressure_data a) fname of
              Inl e \<Rightarrow> Inl e
            | Inr p \<Rightarrow>
                Inr [\<lparr>file_name = fname, channel = col, mean_of_maxes = mean_max,
                      std_of_maxes = std_max, median_slope = slope,
                      pressure = map_option (\<lambda>x. x * pressure_multiplier a) p\<rparr>])
      else Inr [])"

text \<open>\<open>for col in df.columns\<close>.\<close>

fun channels_loop ::
  "folder_args \<Rightarrow> string \<Rightarrow> dso \<Rightarrow> (string \<times> column) list \<Rightarrow> summary_row list
     \<Rightarrow> error + summary_row list" where
  "channels_loop a fname df [] results = Inr results"
| "channels_loop a fname df ((col, vals) # cols) results =
     (if prefix ''CH'' col then
        (case process_channel a fname df col vals of
           Inl e \<Rightarrow> Inl e
         | Inr rows \<Rightarrow> channels_loop a fname df cols (results @ rows))
      else channels_loop a fname df cols results)"

text \<open>A folder is its listing, each name with what \<open>read_dso_csv\<close> returns for it
  (\<open>None\<close> for a file that could not be read).\<close>

type_synonym folder = "(string \<times> dso option) list"

text \<open>\<open>for file_name in os.listdir(folder_path)\<close>.\<close>

fun files_loop :: "folder_args \<Rightarrow> folder \<Rightarrow> summary_row list \<Rightarrow> error + summary_row list" where
  "files_loop a [] results = Inr results"
| "files_loop a ((fname, df) # files) results =
     (if suffix ''.csv'' fname \<and> sublist ''Pokit DSO Export'' fname then
        (case df of
           None \<Rightarrow> files_loop a files results
         | Some d \<Rightarrow>
             (case channels_loop a fname d (columns d) results of
                Inl e \<Rightarrow> Inl e
              | Inr results' \<Rightarrow> files_loop a files results'))
      else files_loop a files results)"

definition process_folder :: "folder_args \<Rightarrow> folder \<Rightarrow> error + summary_row list" where
  "process_folder a fld = files_loop a fld []"


section \<open>process_multiple_folders\<close>

text \<open>One element of the zip of the three configuration lists: the folder path with its
  listing, what \<open>read_pressure_csv\<close> returns for the pressure file, and the multipliers.\<close>

record job =
  folder_path :: string
  listing :: folder
  pressure_file :: "pressure_log option"
  mult_max :: real
  mult_pressure :: real

text \<open>\<open>all_results[folder_path] = results_df\<close> on an insertion-ordered dict.\<close>

fun dict_set :: "('k \<times> 'v) list \<Rightarrow> 'k \<Rightarrow> 'v \<Rightarrow> ('k \<times> 'v) list" where
  "dict_set [] k v = [(k, v)]"
| "dict_set ((k', v') # d) k v = (if k' = k then (k, v) # d else (k', v') # dict_set d k v)"

fun folders_loop ::
  "(string \<Rightarrow> int option) \<Rightarrow> job list \<Rightarrow> (string \<times> summary_row list) list
     \<Rightarrow> error + (string \<times> summary_row list) list" where
  "folders_loop sp [] all_results = Inr all_results"
| "folders_loop sp (j # js) all_results =
     (case pressure_file j of
        None \<Rightarrow> folders_loop sp js all_results
      | Some pd \<Rightarrow>
          (case process_folder
                  \<lparr>strptime = sp, pressure_data = pd, max_multiplier = mult_max j,
                   pressure_multiplier = mult_pressure j\<rparr> (listing j) of
             Inl e \<Rightarrow> Inl e
           | Inr results_df \<Rightarrow>
               if results_df \<noteq> [] then
                 folders_loop sp js (dict_set all_results (folder_path j) results_df)
               else folders_loop sp js all_results))"

text \<open>The combined table written to \<open>output_path\<close>; \<open>pd.concat\<close> raises \<open>ValueError\<close> when
  there is nothing to concatenate.\<close>

definition process_multiple_folders ::
  "(string \<Rightarrow> int option) \<Rightarrow> job list \<Rightarrow> error + summary_row list" where
  "process_multiple_folders sp jobs =
     (case folders_loop sp jobs [] of
        Inl e \<Rightarrow> Inl e
      | Inr all_results \<Rightarrow>
          if all_results = [] then Inl ValueError_concat
          else Inr (concat (map snd all_results)))"


section \<open>The algorithms in the words of the specification\<close>

text \<open>One step of the hysteresis scan on the pair (running candidate, accepted list).\<close>

definition hysteresis_step :: "real \<Rightarrow> real \<times> real list \<Rightarrow> real \<Rightarrow> real \<times> real list" where
  "hysteresis_step avg st x =
     (let prev = fst st; accepted = snd st in
      if prev > max (4 * \<bar>x\<bar>) avg then (\<bar>x\<bar>, accepted @ [prev])
      else if prev < \<bar>x\<bar> then (\<bar>x\<bar>, accepted)
      else (prev, accepted))"

definition hysteresis_scan :: "real \<Rightarrow> real list \<Rightarrow> real list" where
  "hysteresis_scan avg xs = snd (foldl (hysteresis_step avg) (0, []) xs)"

definition mean_signed :: "real list \<Rightarrow> real" where
  "mean_signed xs = sum_list xs / real (length xs)"

definition mean_abs :: "real list \<Rightarrow> real" where
  "mean_abs xs = sum_list (map abs xs) / real (length xs)"

text \<open>Bessel-corrected sample standard deviation, divisor \<open>N - 1\<close>.\<close>

definition sample_std :: "real list \<Rightarrow> real" where
  "sample_std xs =
     sqrt (sum_list (map (\<lambda>x. (x - mean_signed xs)\<^sup>2) xs) / (real (length xs) - 1))"

definition spread :: "real list \<Rightarrow> real" where
  "spread peaks = (if length peaks < 2 then 10 else sample_std peaks)"

definition inside_bounds :: "real list \<Rightarrow> real \<Rightarrow> bool" where
  "inside_bounds peaks m =
     (mean_signed peaks - 2 * spread peaks \<le> m \<and> m \<le> mean_signed peaks + 2 * spread peaks)"






section \<open>A sample run\<close>

text \<open>One capture with a single channel, a pressure log with two rows, and two file
  names: the name of an export, and the name that a second download of the same export
  gets. \<open>example_strptime\<close> agrees with \<open>datetime.strptime\<close> on the two strings that
  \<open>file_time_str\<close> yields for them: the first is a date (second 100 on the axis of the
  log), the second has unconverted data after the seconds and raises \<open>ValueError\<close>.\<close>

definition example_strptime :: "string \<Rightarrow> int option" where
  "example_strptime s = (if s = ''2024 06 17 17 46 07'' then Some 100 else None)"

definition example_df :: dso where
  "example_df = \<lparr>time_ms = Int64 [0, 1, 2, 3, 4, 5],
     columns = [(''CH1'', Int64 [1, 0, 1, 0, -10, 10])]\<rparr>"

definition example_log :: pressure_log where
  "example_log = [(40, 7), (100, 5)]"

definition example_args :: folder_args where
  "example_args = \<lparr>strptime = example_strptime, pressure_data = example_log,
     max_multiplier = 2, pressure_multiplier = 3\<rparr>"

definition good_name :: string where
  "good_name = ''Pokit DSO Export 2024-06-17-17-46-07.csv''"

definition copy_name :: string where
  "copy_name = ''Pokit DSO Export 2024-06-17-17-46-07 (1).csv''"

definition example_row :: summary_row where
  "example_row = \<lparr>file_name = good_name, channel = ''CH1'', mean_of_maxes = Fin 2,
     std_of_maxes = NaN, median_slope = Fin (- 1), pressure = Some 15\<rparr>"

definition job_good :: job where
  "job_good = \<lparr>folder_path = ''B'', listing = [(good_name, Some example_df)],
      pressure_file = Some example_log, mult_max = 2, mult_pressure = 3\<rparr>"

definition job_copy :: job where
  "job_copy = \<lparr>folder_path = ''A'',
      listing = [(copy_name, Some example_df), (good_name, Some example_df)],
      pressure_file = Some example_log, mult_max = 2, mult_pressure = 3\<rparr>"


section \<open>Facts about the numeric layer\<close>

lemma np_mean_nonempty: "xs \<noteq> [] \<Longrightarrow> np_mean xs = Fin (sum_list xs / real (length xs))"
  by (simp add: np_mean_def fl_div_def)

lemma example_raw_confirmed: "raw_confirmed [1, 0, 1, 0, -10, 10] = [1, 1]"
  by (simp add: raw_confirmed_def np_mean_def fl_div_def py_max_def)

lemma example_find_maxes: "find_maxes [1, 0, 1, 0, -10, 10] = [1]"
  by (simp add: find_maxes_def example_raw_confirmed pop_first_def trim_def np_mean_def
      fl_div_def fl_sub_def)


section \<open>The hysteresis scan\<close>

lemma scan_loop_foldl:
  "scan_loop (Fin avg) prev acc xs = snd (foldl (hysteresis_step avg) (prev, acc) xs)"
  by (induction xs arbitrary: prev acc) (auto simp: hysteresis_step_def py_max_def Let_def)

text \<open>
  C1, as the code has it. The scan of \<open>find_maxes\<close> is the hysteresis scan of the
  specification (candidate \<open>prev\<close> starting at 0; a sample \<open>x\<close> confirms \<open>prev\<close> and resets it
  to \<open>|x|\<close> exactly when \<open>prev > max(4 * |x|, avg)\<close>, raises \<open>prev\<close> to \<open>|x|\<close> when
  \<open>prev < |x|\<close>, and otherwise changes nothing), with \<open>avg\<close> the arithmetic mean of the
  signed samples of the series, not of their absolute values.
\<close>

theorem C1_scan_is_hysteresis_with_signed_mean:
  "raw_confirmed xs = hysteresis_scan (mean_signed xs) xs"
proof (cases xs)
  case Nil
  then show ?thesis by (simp add: raw_confirmed_def hysteresis_scan_def)
next
  case (Cons a as)
  then have "np_mean xs = Fin (mean_signed xs)"
    by (simp add: np_mean_nonempty mean_signed_def)
  then show ?thesis by (simp add: raw_confirmed_def hysteresis_scan_def scan_loop_foldl)
qed

text \<open>
  C1 as stated fails: on the series \<open>1, 0, 1, 0, -10, 10\<close> the mean of the absolute
  amplitudes is \<open>11/3\<close> and the scan of the specification confirms no peak, whereas the
  code compares with the signed mean \<open>1/3\<close>, confirms the peak 1 twice and returns one peak.
\<close>

theorem C1_mean_abs_counterexample:
  "raw_confirmed [1, 0, 1, 0, -10, 10] \<noteq>
     hysteresis_scan (mean_abs [1, 0, 1, 0, -10, 10]) [1, 0, 1, 0, -10, 10]
   \<and> hysteresis_scan (mean_abs [1, 0, 1, 0, -10, 10]) [1, 0, 1, 0, -10, 10] = []
   \<and> find_maxes [1, 0, 1, 0, -10, 10] = [1]"
proof -
  have "hysteresis_scan (mean_abs [1, 0, 1, 0, -10, 10]) [1, 0, 1, 0, -10, 10] = []"
    by (simp add: hysteresis_scan_def hysteresis_step_def mean_abs_def)
  then show ?thesis by (simp add: example_raw_confirmed example_find_maxes)
qed


section \<open>Warm-up discard and outlier trim\<close>

lemma pop_first_tl: "pop_first xs = tl xs"
  by (cases xs) (auto simp: pop_first_def)

lemma set_pop_first: "set (pop_first xs) \<subseteq> set xs"
  by (cases xs) (auto simp: pop_first_def)

lemma trim_unfold:
  "trim xs =
     filter (\<lambda>m. fl_le (Fin m)
         (fl_add (np_mean xs) (fl_scale 2 (if length xs > 1 then np_std_ddof1 xs else Fin 10))))
       (filter (\<lambda>m. fl_le
            (fl_sub (np_mean xs) (fl_scale 2 (if length xs > 1 then np_std_ddof1 xs else Fin 10)))
            (Fin m)) xs)"
  by (simp only: trim_def Let_def)

lemma trim_filter: "\<exists>P. trim xs = filter P xs"
  unfolding trim_unfold filter_filter by (rule exI, rule refl)

lemma set_trim: "set (trim xs) \<subseteq> set xs"
proof -
  obtain P where "trim xs = filter P xs" using trim_filter by blast
  then show ?thesis by simp
qed

lemma sumsq_nonneg: "0 \<le> sum_list (map (\<lambda>x. (x - c)\<^sup>2) (xs::real list))"
  by (induction xs) simp_all

lemma np_std_ge2:
  assumes "2 \<le> length xs"
  shows "np_std_ddof1 xs = Fin (sample_std xs)"
proof -
  define ss where "ss = sum_list (map (\<lambda>x. (x - sum_list xs / real (length xs))\<^sup>2) xs)"
  have n1: "real (length xs - 1) = real (length xs) - 1" using assms by simp
  have pos: "0 < real (length xs) - 1" using assms by simp
  have ss0: "0 \<le> ss" unfolding ss_def by (rule sumsq_nonneg)
  have q: "0 \<le> ss / (real (length xs) - 1)" using ss0 pos by (rule divide_nonneg_pos)
  have "np_std_ddof1 xs = fl_sqrt (fl_div ss (real (length xs) - 1))"
    by (simp only: np_std_ddof1_def Let_def ss_def n1)
  also have "fl_div ss (real (length xs) - 1) = Fin (ss / (real (length xs) - 1))"
    using pos by (simp add: fl_div_def)
  also have "fl_sqrt (Fin (ss / (real (length xs) - 1))) = Fin (sqrt (ss / (real (length xs) - 1)))"
    using q by simp
  also have "sqrt (ss / (real (length xs) - 1)) = sample_std xs"
    by (simp only: sample_std_def mean_signed_def ss_def)
  finally show ?thesis .
qed

lemma trim_spec: "trim xs = filter (inside_bounds xs) xs"
proof (cases "xs = []")
  case True
  then show ?thesis by (simp add: trim_unfold)
next
  case ne: False
  have mu: "np_mean xs = Fin (mean_signed xs)"
    using ne by (simp add: np_mean_nonempty mean_signed_def)
  have sd: "(if length xs > 1 then np_std_ddof1 xs else Fin 10) = Fin (spread xs)"
  proof (cases "length xs > 1")
    case True
    then have "2 \<le> length xs" by simp
    then have "np_std_ddof1 xs = Fin (sample_std xs)" by (rule np_std_ge2)
    with True show ?thesis by (simp add: spread_def)
  next
    case False
    then show ?thesis by (simp add: spread_def)
  qed
  have ib: "inside_bounds xs =
      (\<lambda>m. mean_signed xs - 2 * spread xs \<le> m \<and> m \<le> mean_signed xs + 2 * spread xs)"
    by (rule ext) (simp add: inside_bounds_def)
  show ?thesis
    unfolding trim_unfold mu sd ib
    by (simp add: fl_sub_def conj_commute)
qed

text \<open>
  C3. Let \<open>rest\<close> be the confirmed peaks without the first one. \<open>find_maxes\<close> returns
  exactly the elements of \<open>rest\<close>, in their order, that lie in
  \<open>[mean - 2 * std, mean + 2 * std]\<close>, where \<open>mean\<close> is the mean of \<open>rest\<close> and \<open>std\<close> is
  10 when \<open>rest\<close> has fewer than 2 elements and the sample standard deviation of \<open>rest\<close>
  with divisor \<open>N - 1\<close> otherwise (the definitions \<open>inside_bounds\<close> and \<open>spread\<close>).
\<close>

theorem C3_outlier_trim:
  "find_maxes ch =
     filter (inside_bounds (tl (raw_confirmed ch))) (tl (raw_confirmed ch))"
  by (simp only: find_maxes_def pop_first_tl trim_spec)

lemma example_one_confirmed: "raw_confirmed [1, 0] = [1]"
  by (simp add: raw_confirmed_def np_mean_def fl_div_def py_max_def)

text \<open>
  C4. The result of \<open>find_maxes\<close> is taken from the confirmed peaks after the first
  (it is a subsequence of them), so the first confirmed peak is discarded; when the scan
  confirms no peak or exactly one peak, the result is empty.
\<close>

theorem C4_first_peak_discarded:
  "subseq (find_maxes ch) (tl (raw_confirmed ch)) \<and>
   (length (raw_confirmed ch) \<le> 1 \<longrightarrow> find_maxes ch = [])"
proof
  obtain P where P: "trim (tl (raw_confirmed ch)) = filter P (tl (raw_confirmed ch))"
    using trim_filter by blast
  show "subseq (find_maxes ch) (tl (raw_confirmed ch))"
    unfolding find_maxes_def pop_first_tl P by (rule subseq_filter_left)
  show "length (raw_confirmed ch) \<le> 1 \<longrightarrow> find_maxes ch = []"
  proof
    assume "length (raw_confirmed ch) \<le> 1"
    then have "tl (raw_confirmed ch) = []" by (cases "raw_confirmed ch") auto
    then show "find_maxes ch = []" unfolding find_maxes_def pop_first_tl P by simp
  qed
qed

theorem C4_first_peak_discarded_witness:
  "raw_confirmed [1, 0] = [1] \<and> length (raw_confirmed [1, 0]) \<le> 1 \<and> find_maxes [1, 0] = []"
  using C4_first_peak_discarded [of "[1, 0]"] by (simp add: example_one_confirmed)


section \<open>Where the peaks come from\<close>

lemma confirm_gt: "fl_less (py_max (Fin a) av) (Fin p) \<Longrightarrow> a < p"
  by (cases av) (auto simp: py_max_def split: if_splits)

lemma scan_inv:
  "prev = 0 \<or> prev \<in> abs ` S \<Longrightarrow> set xs \<subseteq> S \<Longrightarrow>
   \<forall>m\<in>set acc. 0 < m \<and> m \<in> abs ` S \<Longrightarrow>
   \<forall>m\<in>set (scan_loop av prev acc xs). 0 < m \<and> m \<in> abs ` S"
proof (induction xs arbitrary: prev acc)
  case Nil
  then show ?case by simp
next
  case (Cons k ks)
  have kS: "\<bar>k\<bar> \<in> abs ` S" and ks: "set ks \<subseteq> S" using Cons.prems(2) by auto
  have kS': "\<bar>k\<bar> = 0 \<or> \<bar>k\<bar> \<in> abs ` S" using kS by simp
  show ?case
  proof (cases "fl_less (py_max (Fin (4 * \<bar>k\<bar>)) av) (Fin prev)")
    case True
    then have "4 * \<bar>k\<bar> < prev" by (rule confirm_gt)
    then have pos: "0 < prev" by linarith
    with Cons.prems(1) have "prev \<in> abs ` S" by auto
    with pos Cons.prems(3) have "\<forall>m\<in>set (acc @ [prev]). 0 < m \<and> m \<in> abs ` S" by auto
    from Cons.IH[OF kS' ks this] have
      "\<forall>m\<in>set (scan_loop av \<bar>k\<bar> (acc @ [prev]) ks). 0 < m \<and> m \<in> abs ` S" .
    moreover have "scan_loop av prev acc (k # ks) = scan_loop av \<bar>k\<bar> (acc @ [prev]) ks"
      using True by simp
    ultimately show ?thesis by (simp only:)
  next
    case False
    show ?thesis
    proof (cases "prev < \<bar>k\<bar>")
      case True
      have "scan_loop av prev acc (k # ks) = scan_loop av \<bar>k\<bar> acc ks"
        using True False by simp
      with Cons.IH[OF kS' ks Cons.prems(3)] show ?thesis by (simp only:)
    next
      case F2: False
      have "scan_loop av prev acc (k # ks) = scan_loop av prev acc ks"
        using F2 False by simp
      with Cons.IH[OF Cons.prems(1) ks Cons.prems(3)] show ?thesis by (simp only:)
    qed
  qed
qed

lemma raw_confirmed_abs:
  assumes "m \<in> set (raw_confirmed ch)"
  shows "0 < m \<and> m \<in> abs ` set ch"
proof -
  have a: "(0::real) = 0 \<or> 0 \<in> abs ` set ch" by simp
  have b: "set ch \<subseteq> set ch" by simp
  have c: "\<forall>m\<in>set []. 0 < m \<and> m \<in> abs ` set ch" by simp
  have "\<forall>m\<in>set (scan_loop (np_mean ch) 0 [] ch). 0 < m \<and> m \<in> abs ` set ch"
    by (rule scan_inv[OF a b c])
  then show ?thesis using assms unfolding raw_confirmed_def by (rule bspec)
qed

text \<open>
  C10. Every element of the list returned by \<open>find_maxes\<close> is nonnegative and is the
  absolute value of a sample of the input series.
\<close>

theorem C10_peaks_are_abs_samples:
  "\<forall>m\<in>set (find_maxes ch). 0 \<le> m \<and> (\<exists>x\<in>set ch. m = \<bar>x\<bar>)"
proof
  fix m assume "m \<in> set (find_maxes ch)"
  then have "m \<in> set (trim (pop_first (raw_confirmed ch)))" by (simp only: find_maxes_def)
  then have "m \<in> set (pop_first (raw_confirmed ch))"
    using set_trim by (rule rev_subsetD)
  then have "m \<in> set (raw_confirmed ch)"
    using set_pop_first by (rule rev_subsetD)
  then have *: "0 < m \<and> m \<in> abs ` set ch" by (rule raw_confirmed_abs)
  then obtain x where "x \<in> set ch" "m = \<bar>x\<bar>" by blast
  with * show "0 \<le> m \<and> (\<exists>x\<in>set ch. m = \<bar>x\<bar>)" by (intro conjI bexI[of _ x]) simp_all
qed

theorem C10_peaks_are_abs_samples_witness:
  "1 \<in> set (find_maxes [1, 0, 1, 0, -10, 10]) \<and>
   (0::real) \<le> 1 \<and> (\<exists>x\<in>set [1, 0, 1, 0, -10, 10 :: real]. 1 = \<bar>x\<bar>)"
proof -
  have m: "1 \<in> set (find_maxes [1, 0, 1, 0, -10, 10])"
    by (simp add: example_find_maxes)
  from C10_peaks_are_abs_samples [of "[1, 0, 1, 0, -10, 10]"] m
  have "(0::real) \<le> 1 \<and> (\<exists>x\<in>set [1, 0, 1, 0, -10, 10 :: real]. 1 = \<bar>x\<bar>)"
    by (rule bspec)
  with m show ?thesis by (rule conjI)
qed


section \<open>The slope estimator\<close>














section \<open>The timestamp aligner\<close>

lemma hd_sort_key_min:
  fixes f :: "'a \<Rightarrow> 'b::linorder"
  assumes "xs \<noteq> []"
  shows "hd (sort_key f xs) \<in> set xs \<and> (\<forall>y\<in>set xs. f (hd (sort_key f xs)) \<le> f y)"
proof -
  have "length (sort_key f xs) = length xs" by simp
  with assms obtain a r where s: "sort_key f xs = a # r" by (cases "sort_key f xs") auto
  have "sorted (map f (sort_key f xs))" by (rule sorted_sort_key)
  then have le: "\<forall>y\<in>set r. f a \<le> f y" unfolding s by simp
  have st: "set (a # r) = set xs" using s set_sort[of f xs] by simp
  then have "a \<in> set xs" by auto
  moreover have "\<forall>y\<in>set xs. f a \<le> f y" using le st by auto
  ultimately show ?thesis by (simp add: s)
qed

lemma argsort_hd:
  assumes "ks \<noteq> []"
  shows "argsort ks \<noteq> [] \<and> hd (argsort ks) < length ks \<and> (\<forall>j<length ks. ks ! hd (argsort ks) \<le> ks ! j)"
proof -
  have ne: "[0..<length ks] \<noteq> []" using assms by simp
  from hd_sort_key_min[OF ne, of "\<lambda>i. ks ! i"]
  have "hd (argsort ks) \<in> set [0..<length ks]"
    and "\<forall>y\<in>set [0..<length ks]. ks ! hd (argsort ks) \<le> ks ! y"
    unfolding argsort_def by blast+
  moreover have "length (argsort ks) = length ks" by (simp add: argsort_def)
  ultimately show ?thesis using assms by auto
qed

lemma nearest_nonempty:
  assumes "ps \<noteq> []"
  shows "\<exists>i<length ps. nearest_pressure ps q = Some (snd (ps ! i)) \<and>
            (\<forall>j<length ps. \<bar>fst (ps ! i) - q\<bar> \<le> \<bar>fst (ps ! j) - q\<bar>)"
proof -
  define ks where "ks = map (\<lambda>(t, p). \<bar>t - q\<bar>) ps"
  have kn: "ks \<noteq> []" and len: "length ks = length ps" using assms by (simp_all add: ks_def)
  have nth: "ks ! j = \<bar>fst (ps ! j) - q\<bar>" if "j < length ps" for j
    using that by (simp add: ks_def case_prod_beta)
  define i where "i = hd (argsort ks)"
  from argsort_hd[OF kn] have ane: "argsort ks \<noteq> []" and ilt: "i < length ps"
    and imin: "\<forall>j<length ps. ks ! i \<le> ks ! j" by (simp_all add: i_def len)
  have t1: "take 1 (argsort ks) = [i]" using ane by (cases "argsort ks") (simp_all add: i_def)
  have "nearest_pressure ps q = Some (snd (ps ! i))"
    using t1 ane by (simp add: nearest_pressure_def ks_def[symmetric])
  moreover have "\<forall>j<length ps. \<bar>fst (ps ! i) - q\<bar> \<le> \<bar>fst (ps ! j) - q\<bar>"
    using imin ilt nth by simp
  ultimately show ?thesis using ilt by blast
qed

lemma nearest_empty: "nearest_pressure [] q = None"
  by (simp add: nearest_pressure_def argsort_def)

text \<open>
  C6. For every pressure series and query time, the aligner returns the pressure of a
  sample whose absolute time difference to the query time is minimal over the whole
  series, and it returns nothing if and only if the series is empty.
\<close>

theorem C6_nearest_pressure:
  "(nearest_pressure ps q = None \<longleftrightarrow> ps = []) \<and>
   (ps \<noteq> [] \<longrightarrow>
      (\<exists>i<length ps. nearest_pressure ps q = Some (snd (ps ! i)) \<and>
         (\<forall>j<length ps. \<bar>fst (ps ! i) - q\<bar> \<le> \<bar>fst (ps ! j) - q\<bar>)))"
proof (cases "ps = []")
  case True
  then show ?thesis by (simp add: nearest_empty)
next
  case False
  from nearest_nonempty[OF False, of q] obtain i where
    i: "i < length ps" "nearest_pressure ps q = Some (snd (ps ! i))"
       "\<forall>j<length ps. \<bar>fst (ps ! i) - q\<bar> \<le> \<bar>fst (ps ! j) - q\<bar>"
    by blast
  have "nearest_pressure ps q \<noteq> None" using i(2) by simp
  moreover have "\<exists>i<length ps. nearest_pressure ps q = Some (snd (ps ! i)) \<and>
         (\<forall>j<length ps. \<bar>fst (ps ! i) - q\<bar> \<le> \<bar>fst (ps ! j) - q\<bar>)"
    using i by blast
  ultimately show ?thesis using False by simp
qed

text \<open>The scenario of the specification: samples at 10:00, 10:05 and 10:10 (in seconds
  after 09:50) and a capture at 10:06; the sample of 10:05 is the only nearest one.\<close>

theorem C6_nearest_pressure_witness:
  "nearest_pressure [(600, 1), (900, 2), (1200, 3)] 960 = Some 2 \<and>
   nearest_pressure [] 960 = None"
proof -
  let ?ps = "[(600, 1), (900, 2), (1200, 3)] :: pressure_log"
  have ne: "?ps \<noteq> []" by simp
  from C6_nearest_pressure [of ?ps 960] ne obtain i where
    i: "i < length ?ps" "nearest_pressure ?ps 960 = Some (snd (?ps ! i))"
       "\<forall>j<length ?ps. \<bar>fst (?ps ! i) - 960\<bar> \<le> \<bar>fst (?ps ! j) - 960\<bar>"
    by blast
  from i(3) [rule_format, of 1]
  have le: "\<bar>fst (?ps ! i) - 960\<bar> \<le> \<bar>fst (?ps ! 1) - 960\<bar>" by simp
  from i(1) have "i = 0 \<or> i = 1 \<or> i = 2" by auto
  with le have "i = 1" by auto
  with i(2) have "nearest_pressure ?ps 960 = Some 2" by simp
  moreover have "nearest_pressure [] 960 = None"
    using C6_nearest_pressure [of "[]" 960] by simp
  ultimately show ?thesis by simp
qed


section \<open>The folder aggregator\<close>

lemma process_channel_empty:
  "find_maxes (to_float vals) = [] \<Longrightarrow> process_channel a fname df col vals = Inr []"
  by (simp add: process_channel_def scale_peaks_def)

lemma channels_loop_skip:
  assumes "find_maxes (to_float vals) = []"
  shows "channels_loop a fname df (cs1 @ (col, vals) # cs2) results =
         channels_loop a fname df (cs1 @ cs2) results"
proof (induction cs1 arbitrary: results)
  case Nil
  show ?case by (simp add: process_channel_empty[OF assms])
next
  case (Cons c cs1)
  obtain n v where c: "c = (n, v)" by (cases c)
  show ?case
  proof (cases "prefix ''CH'' n")
    case False
    then show ?thesis using Cons.IH by (simp add: c)
  next
    case True
    show ?thesis
    proof (cases "process_channel a fname df n v")
      case (Inl e)
      then show ?thesis using True by (simp add: c)
    next
      case (Inr rows)
      then show ?thesis using True Cons.IH by (simp add: c)
    qed
  qed
qed

lemma np_std_single: "np_std_ddof1 [x] = NaN"
  by (simp add: np_std_ddof1_def fl_div_def)

lemma example_no_peak: "find_maxes [1, 0] = []"
  by (simp add: find_maxes_def example_one_confirmed pop_first_def trim_def)

lemma example_no_peak_column: "find_maxes (to_float (Int64 [1, 0])) = []"
  by (simp add: example_no_peak)

lemma example_one_peak_column: "find_maxes (to_float (Int64 [1, 0, 1, 0, -10, 10])) = [1]"
  by (simp add: example_find_maxes)

lemma example_selected:
  "suffix ''.csv'' good_name \<and> sublist ''Pokit DSO Export'' good_name"
  "suffix ''.csv'' copy_name \<and> sublist ''Pokit DSO Export'' copy_name"
  by (simp_all add: good_name_def copy_name_def suffix_to_prefix sublist_Cons_right)

lemma example_strptime_good: "example_strptime (file_time_str good_name) = Some 100"
  by (simp add: example_strptime_def file_time_str_def good_name_def)

lemma example_strptime_copy: "example_strptime (file_time_str copy_name) = None"
  by (simp add: example_strptime_def file_time_str_def copy_name_def)

lemma example_slope:
  "calculate_median_slope (Int64 [0, 1, 2, 3, 4, 5]) (Int64 [1, 0, 1, 0, -10, 10]) = Fin (- 1)"
  by (simp add: calculate_median_slope_def diff_int64_def wrap64_def fl_div_def np_median_def
      fl_sort_def)

lemma example_nearest: "nearest_pressure example_log 100 = Some 5"
  by (simp add: nearest_pressure_def example_log_def argsort_def upt_conv_Cons)

lemma example_channel_good:
  "process_channel example_args good_name example_df ''CH1''
     (Int64 [1, 0, 1, 0, -10, 10]) =
     Inr [example_row]"
  by (simp add: process_channel_def scale_peaks_def example_find_maxes example_args_def
      map_pressure_to_file_def example_strptime_good example_df_def example_slope
      example_nearest example_row_def np_std_single np_mean_def fl_div_def)

lemma example_channel_copy:
  "process_channel example_args copy_name example_df ''CH1''
     (Int64 [1, 0, 1, 0, -10, 10]) =
     Inl ValueError_strptime"
  by (simp add: process_channel_def scale_peaks_def example_find_maxes example_args_def
      map_pressure_to_file_def example_strptime_copy)

lemma example_channels_good:
  "channels_loop example_args good_name example_df (columns example_df) rs =
     Inr (rs @ [example_row])"
  using example_channel_good by (simp add: example_df_def)

lemma example_channels_copy:
  "channels_loop example_args copy_name example_df (columns example_df) rs =
     Inl ValueError_strptime"
  using example_channel_copy by (simp add: example_df_def)

lemma example_folder_good:
  "process_folder example_args [(good_name, Some example_df)] = Inr [example_row]"
  by (simp add: process_folder_def example_selected example_channels_good)

lemma example_folder_copy:
  "process_folder example_args [(copy_name, Some example_df), (good_name, Some example_df)] =
     Inl ValueError_strptime"
  by (simp add: process_folder_def example_selected example_channels_copy)

text \<open>
  C2, on the sample run. Folder \<open>A\<close> holds a capture whose name does not parse and a
  capture whose name does; folder \<open>B\<close> holds the latter only. The specification asks
  for the rows of the two good captures. The \<open>ValueError\<close> of \<open>strptime\<close> is caught
  nowhere: it leaves \<open>process_folder\<close> and \<open>process_multiple_folders\<close>, and nothing is
  written. Without the first file the run produces its row.
\<close>

theorem C2_unparseable_name_aborts_run:
  "process_multiple_folders example_strptime [job_copy, job_good] = Inl ValueError_strptime
   \<and> process_multiple_folders example_strptime [job_good] = Inr [example_row]"
  using example_folder_good example_folder_copy
  by (simp add: process_multiple_folders_def job_good_def job_copy_def example_args_def)

text \<open>
  C8. A channel whose peak list is empty appends no row and raises nothing: the loop
  over the columns gives the same result with or without that column, whatever columns
  come before and after it and whatever \<open>results\<close> holds so far.
\<close>

theorem C8_empty_peak_set_no_row:
  assumes "find_maxes (to_float vals) = []"
  shows "process_channel a fname df col vals = Inr [] \<and>
         channels_loop a fname df (cs1 @ (col, vals) # cs2) results =
           channels_loop a fname df (cs1 @ cs2) results"
  using assms process_channel_empty channels_loop_skip by blast

theorem C8_empty_peak_set_no_row_witness:
  "find_maxes (to_float (Int64 [1, 0])) = [] \<and>
   process_channel example_args good_name example_df ''CH2'' (Int64 [1, 0]) = Inr [] \<and>
   channels_loop example_args good_name example_df
     ((''CH2'', Int64 [1, 0]) # columns example_df) [] = Inr [example_row]"
proof -
  from C8_empty_peak_set_no_row [OF example_no_peak_column,
      of example_args good_name example_df "''CH2''" "[]" "columns example_df" "[]"]
  have "process_channel example_args good_name example_df ''CH2'' (Int64 [1, 0]) = Inr []"
    and "channels_loop example_args good_name example_df
           ((''CH2'', Int64 [1, 0]) # columns example_df) [] =
         channels_loop example_args good_name example_df (columns example_df) []"
    by simp_all
  then show ?thesis by (simp add: example_no_peak example_channels_good)
qed

text \<open>
  C9. For a channel with exactly one peak \<open>p\<close> in a file whose name parses to the time
  \<open>t\<close>, one row is emitted: its standard deviation is \<open>nan\<close> (and not 0), its mean is
  the scaled peak, its slope is the median slope of the channel and its pressure is the
  scaled pressure of the nearest sample.
\<close>

theorem C9_single_peak_nan_std:
  assumes "find_maxes (to_float vals) = [p]" and "strptime a (file_time_str fname) = Some t"
  shows "process_channel a fname df col vals =
     Inr [\<lparr>file_name = fname, channel = col, mean_of_maxes = Fin (p * max_multiplier a),
           std_of_maxes = NaN, median_slope = calculate_median_slope (time_ms df) vals,
           pressure = map_option (\<lambda>x. x * pressure_multiplier a)
                        (nearest_pressure (pressure_data a) t)\<rparr>]
     \<and> NaN \<noteq> Fin 0"
  using assms
  by (simp add: process_channel_def scale_peaks_def np_std_single np_mean_def fl_div_def
      map_pressure_to_file_def)

theorem C9_single_peak_nan_std_witness:
  "find_maxes (to_float (Int64 [1, 0, 1, 0, -10, 10])) = [1] \<and>
   strptime example_args (file_time_str good_name) = Some 100 \<and>
   process_channel example_args good_name example_df ''CH1''
     (Int64 [1, 0, 1, 0, -10, 10]) =
     Inr [example_row] \<and>
   std_of_maxes example_row = NaN"
proof -
  have t: "strptime example_args (file_time_str good_name) = Some 100"
    by (simp add: example_args_def example_strptime_good)
  from C9_single_peak_nan_std [OF example_one_peak_column t, of example_df "''CH1''"]
  have "process_channel example_args good_name example_df ''CH1''
     (Int64 [1, 0, 1, 0, -10, 10]) =
     Inr [example_row]"
    by (simp add: example_args_def example_df_def example_slope example_nearest
        example_row_def)
  with t show ?thesis by (simp add: example_find_maxes example_row_def)
qed

end
